theory Spec2Isabelle
  imports Main
begin

section \<open>Platform: values, errors, network and clock\<close>

text \<open>
  The program is a Cloudflare Worker written in TypeScript. Its collaborators (the
  upstream HTTP endpoints, the clock, the JWT decoding built from \<^verbatim>\<open>split\<close>,
  \<^verbatim>\<open>atob\<close> and \<^verbatim>\<open>JSON.parse\<close>) are inputs of the model: every theorem below
  holds for all of their behaviours.
\<close>

text \<open>Exceptions of the JavaScript runtime, as values.\<close>

datatype js_error =
    Error string
  | Fetch_failed
  | SyntaxError
  | ReferenceError string
  | InvalidCharacterError
  | R2Error string

text \<open>
  The outcome of \<^verbatim>\<open>await fetch(...)\<close>: the promise rejects (a transport failure), or it
  resolves to a response with a status code and a body text.
\<close>

datatype fetch_result = Transport_failure | Response nat string

text \<open>
  The network calls of the program, with what each one sends: the discovery call (its
  URL), the refresh (URL, bearer), the registration (URL, link code, device id) and the
  document upload of \<^verbatim>\<open>workflow.ts\<close> (URL, bearer, content type, metadata header, body).
\<close>

datatype request =
    Discovery_request string
  | Token_request string string
  | Device_request string string string
  | Upload_request string string string string string

text \<open>
  A field of a parsed JSON object, as the code observes it: whether the value is truthy,
  and how a template literal renders it (a missing field is falsy and renders as
  \<^verbatim>\<open>undefined\<close>, a \<^verbatim>\<open>null\<close> is falsy and renders as \<^verbatim>\<open>null\<close>).
\<close>

datatype json_field = Field bool string

fun field_truthy :: "json_field \<Rightarrow> bool" where
  "field_truthy (Field truth text) = truth"

fun field_text :: "json_field \<Rightarrow> string" where
  "field_text (Field truth text) = text"

record platform =
  jwt_exp :: "string \<Rightarrow> int option"
  discovery_fields :: "string \<Rightarrow> (json_field \<times> json_field) option"
  upstream :: "nat \<Rightarrow> request \<Rightarrow> fetch_result"
  randomUUID :: "nat \<Rightarrow> string"
  instance_id :: "nat \<Rightarrow> string"
  instance_status :: "nat \<Rightarrow> string"
  meta_header :: "string \<Rightarrow> string option"
  json_valid :: "string \<Rightarrow> bool"
  retry_limit :: nat
  r2_delete :: "nat \<Rightarrow> string \<Rightarrow> js_error option"

text \<open>
  \<open>jwt_exp P tok\<close> is the number that \<^verbatim>\<open>JSON.parse(atob(tok.split(".")[1])).exp\<close>
  compares as, in whole seconds, and \<open>None\<close> when that expression throws or its value
  compares as NaN (a missing \<^verbatim>\<open>exp\<close>, for one). The clock is read in whole seconds
  (\<^verbatim>\<open>Math.floor(Date.now() / 1000)\<close>), so a fractional \<^verbatim>\<open>exp\<close> compares as the next
  whole second does.
  \<open>discovery_fields P body\<close> is \<^verbatim>\<open>response.json()\<close> of the discovery reply, read at
  \<^verbatim>\<open>webapp\<close> and \<^verbatim>\<open>notifications\<close>; \<open>None\<close> when parsing rejects.
  \<open>upstream P n req\<close> is the outcome of the network call \<open>req\<close> made after \<open>n\<close>
  earlier calls. The calls made so far are kept in a log, oldest first.
  \<open>randomUUID P n\<close> is the \<open>n\<close>-th value of \<^verbatim>\<open>crypto.randomUUID()\<close> and
  \<open>instance_id P n\<close> the id of the \<open>n\<close>-th job the scheduler creates, and
  \<open>instance_status P n\<close> what its \<^verbatim>\<open>status()\<close> answers right after.
  \<open>meta_header P name\<close> is \<^verbatim>\<open>btoa(JSON.stringify({parent: "", file_name: name}))\<close>,
  \<open>None\<close> when \<^verbatim>\<open>btoa\<close> throws; \<open>json_valid P text\<close> tells whether
  \<^verbatim>\<open>response.json()\<close> resolves on a body. \<open>retry_limit P\<close> is the number of retries
  the job runner grants a failed step, and \<open>r2_delete P k key\<close> the error, if any, with
  which the \<open>k\<close>-th attempt to delete the blob \<open>key\<close> fails.
\<close>

type_synonym net = "request list"

definition fetch :: "platform \<Rightarrow> net \<Rightarrow> request \<Rightarrow> fetch_result \<times> net" where
  "fetch P net req = (upstream P (length net) req, net @ [req])"

text \<open>JavaScript truthiness of a \<^verbatim>\<open>string | null | undefined\<close>.\<close>

definition truthy :: "string option \<Rightarrow> bool" where
  "truthy v = (case v of None \<Rightarrow> False | Some s \<Rightarrow> s \<noteq> [])"

text \<open>A text between double quotes.\<close>

definition quoted :: "string \<Rightarrow> string" where
  "quoted s = [CHR 0x22] @ s @ [CHR 0x22]"

text \<open>Decimal rendering of a status code inside a template literal.\<close>

definition digit_char :: "nat \<Rightarrow> char" where
  "digit_char d = ''0123456789'' ! d"

function show_nat :: "nat \<Rightarrow> string" where
  "show_nat n = (if n < 10 then [digit_char n] else show_nat (n div 10) @ [digit_char (n mod 10)])"
  by pat_completeness auto
termination
  by (relation "measure id") auto

declare show_nat.simps [simp del]

section \<open>The account instance (\<^verbatim>\<open>auth-do.ts\<close>)\<close>

text \<open>
  \<open>storage\<close> is \<^verbatim>\<open>this.ctx.storage\<close>, the durable key-value store of the instance;
  \<open>access_token\<close> is the in-memory field \<^verbatim>\<open>this.access_token\<close>.
\<close>

record auth_do =
  storage :: "string \<rightharpoonup> string"
  access_token :: "string option"
  auth_host :: "string option"
  sync_host :: "string option"

datatype register_reply = RegisterResult string | AuthError string

record auth_status =
  registered :: bool
  device_id :: "string option"
  access_token_valid :: "bool option"

definition ENDPOINT_DISCOVERY_URL :: string where
  "ENDPOINT_DISCOVERY_URL = ''https://internal.cloud.remarkable.com/discovery/v1/endpoints''"

text \<open>
  The expiry test of lines 64-79 and 181-193: the token must be truthy, and
  \<^verbatim>\<open>exp > now\<close> must hold; any failure to decode is caught and counts as expired.
\<close>

definition token_unexpired :: "platform \<Rightarrow> int \<Rightarrow> string \<Rightarrow> bool" where
  "token_unexpired P now tok = (case jwt_exp P tok of None \<Rightarrow> False | Some exp \<Rightarrow> exp > now)"

definition valid_token :: "platform \<Rightarrow> int \<Rightarrow> string option \<Rightarrow> bool" where
  "valid_token P now v =
    (case v of None \<Rightarrow> False | Some tok \<Rightarrow> tok \<noteq> [] \<and> token_unexpired P now tok)"

text \<open>A value inside a template literal: \<^verbatim>\<open>undefined\<close> renders as its name.\<close>

definition render :: "string option \<Rightarrow> string" where
  "render v = (case v of None \<Rightarrow> ''undefined'' | Some s \<Rightarrow> s)"

text \<open>The two requests to the authentication host (lines 88-94 and 133-141).\<close>

definition refresh_request :: "auth_do \<Rightarrow> string \<Rightarrow> request" where
  "refresh_request d refresh_token =
     Token_request (render (auth_host d) @ ''/token/json/2/user/new'') refresh_token"

definition register_request :: "auth_do \<Rightarrow> string \<Rightarrow> string \<Rightarrow> request" where
  "register_request d linkCode deviceId =
     Device_request (render (auth_host d) @ ''/token/json/2/device/new'') linkCode deviceId"

definition initializeApiHost ::
  "platform \<Rightarrow> auth_do \<Rightarrow> net \<Rightarrow> (js_error + unit) \<times> auth_do \<times> net" where
  "initializeApiHost P d net =
    (case fetch P net (Discovery_request ENDPOINT_DISCOVERY_URL) of
       (Transport_failure, net1) \<Rightarrow> (Inl Fetch_failed, d, net1)
     | (Response status body, net1) \<Rightarrow>
         if status \<noteq> 200 then
           (Inl (Error (''Failed to fetch discovery URL (response code): '' @ show_nat status)), d, net1)
         else (case discovery_fields P body of
           None \<Rightarrow> (Inl SyntaxError, d, net1)
         | Some (webapp, notifications) \<Rightarrow>
             if \<not> field_truthy webapp then
               (Inl (Error (''Failed to fetch auth host: '' @ field_text webapp)), d, net1)
             else
               let d1 = d\<lparr>auth_host := Some (''https://'' @ field_text webapp)\<rparr> in
               if \<not> field_truthy notifications then
                 (Inl (Error (''Failed to fetch sync host: '' @ field_text notifications)), d1, net1)
               else
                 (Inr (), d1\<lparr>sync_host := Some (''https://'' @ field_text notifications)\<rparr>, net1)))"

definition checkRegisteredStatus ::
  "platform \<Rightarrow> int \<Rightarrow> auth_do \<Rightarrow> net \<Rightarrow> (js_error + bool) \<times> auth_do \<times> net" where
  "checkRegisteredStatus P now d net =
    (let stored = storage d ''access_token'' in
     if valid_token P now stored then
       (Inr True, d\<lparr>access_token := stored\<rparr>, net)
     else
       (case storage d ''refresh_token'' of
          None \<Rightarrow> (Inr False, d\<lparr>access_token := None\<rparr>, net)
        | Some refresh_token \<Rightarrow>
            if refresh_token = [] then (Inr False, d\<lparr>access_token := None\<rparr>, net)
            else
              (case fetch P net (refresh_request d refresh_token) of
                 (Transport_failure, net1) \<Rightarrow> (Inl Fetch_failed, d, net1)
               | (Response status data, net1) \<Rightarrow>
                   if status = 200 \<and> data \<noteq> [] then
                     (Inr True,
                      d\<lparr>access_token := Some data,
                        storage := (storage d)(''access_token'' \<mapsto> data)\<rparr>,
                      net1)
                   else (Inr False, d\<lparr>access_token := None\<rparr>, net1))))"

definition register ::
  "platform \<Rightarrow> int \<Rightarrow> string \<Rightarrow> string \<Rightarrow> auth_do \<Rightarrow> net
     \<Rightarrow> (js_error + register_reply) \<times> auth_do \<times> net" where
  "register P now linkCode deviceId d net =
    (let d1 = d\<lparr>storage := (storage d)(''device_id'' \<mapsto> deviceId)\<rparr> in
     case fetch P net (register_request d1 linkCode deviceId) of
       (Transport_failure, net1) \<Rightarrow> (Inl Fetch_failed, d1, net1)
     | (Response status data, net1) \<Rightarrow>
         if status \<noteq> 200 then
           (Inr (AuthError (''Failed to register (response code): '' @ show_nat status)), d1, net1)
         else if data = [] then
           (Inr (AuthError ''Failed to register (no data)''), d1, net1)
         else
           let d2 = d1\<lparr>storage := (storage d1)(''refresh_token'' \<mapsto> data)\<rparr> in
           (case checkRegisteredStatus P now d2 net1 of
              (Inl e, d3, net2) \<Rightarrow> (Inl e, d3, net2)
            | (Inr ok, d3, net2) \<Rightarrow>
                if ok then (Inr (RegisterResult deviceId), d3, net2)
                else (Inr (AuthError ''Failed to register (not registered after token refresh)''),
                      d3, net2)))"

text \<open>
  \<open>now\<close> is the clock reading of line 186, \<open>now'\<close> the later one of line 69, both in
  whole seconds (\<^verbatim>\<open>Math.floor(Date.now() / 1000)\<close>).
\<close>

definition getAccessToken ::
  "platform \<Rightarrow> int \<Rightarrow> int \<Rightarrow> auth_do \<Rightarrow> net \<Rightarrow> (js_error + string option) \<times> auth_do \<times> net" where
  "getAccessToken P now now' d net =
    (if valid_token P now (access_token d) then
       (Inr (access_token d), d, net)
     else
       (case checkRegisteredStatus P now' d net of
          (Inl e, d1, net1) \<Rightarrow> (Inl e, d1, net1)
        | (Inr ok, d1, net1) \<Rightarrow>
            if ok then (Inr (access_token d1), d1, net1) else (Inr None, d1, net1)))"

definition isRegistered :: "auth_do \<Rightarrow> bool" where
  "isRegistered d = (truthy (storage d ''device_id'') \<and> truthy (storage d ''refresh_token''))"

definition getStatus ::
  "platform \<Rightarrow> int \<Rightarrow> int \<Rightarrow> auth_do \<Rightarrow> net \<Rightarrow> (js_error + auth_status) \<times> auth_do \<times> net" where
  "getStatus P now now' d net =
    (if \<not> isRegistered d then
       (Inr \<lparr>registered = False, device_id = None, access_token_valid = None\<rparr>, d, net)
     else
       (case getAccessToken P now now' d net of
          (Inl e, d1, net1) \<Rightarrow> (Inl e, d1, net1)
        | (Inr accessToken, d1, net1) \<Rightarrow>
            (Inr \<lparr>registered = True,
                  device_id = (if truthy (storage d ''device_id'') then storage d ''device_id'' else None),
                  access_token_valid = Some (truthy accessToken)\<rparr>, d1, net1)))"

definition destroy :: "auth_do \<Rightarrow> auth_do" where
  "destroy d = d\<lparr>storage := Map.empty, access_token := None\<rparr>"

text \<open>
  The constructor (lines 16-24) runs on a new in-memory instance over the durable
  storage: it resolves the hosts, then checks the registered status. When it raises, the
  instance is unusable and no method runs.
\<close>

definition constructor ::
  "platform \<Rightarrow> int \<Rightarrow> (string \<rightharpoonup> string) \<Rightarrow> net \<Rightarrow> (js_error + unit) \<times> auth_do \<times> net" where
  "constructor P now st net =
    (let d0 = \<lparr>storage = st, access_token = None, auth_host = None, sync_host = None\<rparr> in
     case initializeApiHost P d0 net of
       (Inl e, d1, net1) \<Rightarrow> (Inl e, d1, net1)
     | (Inr u, d1, net1) \<Rightarrow>
         (case checkRegisteredStatus P now d1 net1 of
            (Inl e, d2, net2) \<Rightarrow> (Inl e, d2, net2)
          | (Inr ok, d2, net2) \<Rightarrow> (Inr (), d2, net2)))"

text \<open>The public methods of the instance, as the calls a stub can make.\<close>

datatype call = Register string string | GetAccessToken | IsRegistered | GetStatus | Destroy

datatype reply =
    Registration register_reply
  | Token "string option"
  | Flag bool
  | Status auth_status
  | Destroyed

definition rpc ::
  "platform \<Rightarrow> int \<Rightarrow> int \<Rightarrow> call \<Rightarrow> auth_do \<Rightarrow> net \<Rightarrow> (js_error + reply) \<times> auth_do \<times> net" where
  "rpc P now now' c d net =
    (case c of
       Register linkCode deviceId \<Rightarrow>
         (case register P now' linkCode deviceId d net of
            (r, d1, net1) \<Rightarrow> (map_sum id Registration r, d1, net1))
     | GetAccessToken \<Rightarrow>
         (case getAccessToken P now now' d net of
            (r, d1, net1) \<Rightarrow> (map_sum id Token r, d1, net1))
     | IsRegistered \<Rightarrow> (Inr (Flag (isRegistered d)), d, net)
     | GetStatus \<Rightarrow>
         (case getStatus P now now' d net of
            (r, d1, net1) \<Rightarrow> (map_sum id Status r, d1, net1))
     | Destroy \<Rightarrow> (Inr Destroyed, destroy d, net))"

text \<open>
  What every state of an instance satisfies: a token cached in memory is non-empty and
  is the persisted one, and a persisted access token comes with a refresh token.
\<close>

definition cache_consistent :: "auth_do \<Rightarrow> bool" where
  "cache_consistent d =
    ((case access_token d of
        None \<Rightarrow> True
      | Some tok \<Rightarrow> tok \<noteq> [] \<and> storage d ''access_token'' = Some tok) \<and>
     (truthy (storage d ''refresh_token'') \<or> \<not> truthy (storage d ''access_token'')))"

text \<open>An attempt to refresh fails on a transport failure, a status other than 200 or an empty body.\<close>

definition refresh_failed :: "fetch_result \<Rightarrow> bool" where
  "refresh_failed r =
    (case r of Transport_failure \<Rightarrow> True | Response status data \<Rightarrow> status \<noteq> 200 \<or> data = [])"

section \<open>The worker's environment\<close>

text \<open>
  An account instance is addressed by name. It is either live in memory, or dormant: only
  its durable storage exists, and the next call through a stub runs the constructor first.
  A constructor that raises leaves the instance dormant and the call raises.
\<close>

datatype slot = Dormant "string \<rightharpoonup> string" | Live auth_do

text \<open>
  The clock readings one call obtains: the whole seconds read by the constructor, by
  \<open>getAccessToken\<close> and by \<open>checkRegisteredStatus\<close>, and \<^verbatim>\<open>new Date().toISOString()\<close>.
\<close>

record readings =
  at_constructor :: int
  at_cached :: int
  at_persisted :: int
  iso :: string

definition with_instance ::
  "platform \<Rightarrow> readings \<Rightarrow> slot \<Rightarrow> net
     \<Rightarrow> (auth_do \<Rightarrow> net \<Rightarrow> (js_error + 'a) \<times> auth_do \<times> net)
     \<Rightarrow> (js_error + 'a) \<times> slot \<times> net" where
  "with_instance P clk s net method =
    (case s of
       Live d \<Rightarrow> (case method d net of (r, d1, net1) \<Rightarrow> (r, Live d1, net1))
     | Dormant st \<Rightarrow>
         (case constructor P (at_constructor clk) st net of
            (Inl e, d1, net1) \<Rightarrow> (Inl e, Dormant (storage d1), net1)
          | (Inr u, d1, net1) \<Rightarrow>
              (case method d1 net1 of (r, d2, net2) \<Rightarrow> (r, Live d2, net2))))"

text \<open>
  The states an account instance can be in. Its storage starts empty; every call through
  a stub runs to its end before the next one starts (calls on one instance are
  serialized); a live instance can be evicted from memory at any time between calls, and
  only its storage survives.
\<close>

inductive reachable :: "platform \<Rightarrow> slot \<Rightarrow> bool" for P :: platform where
  created: "reachable P (Dormant Map.empty)"
| called: "reachable P s \<Longrightarrow>
     with_instance P clk s net (rpc P (at_cached clk) (at_persisted clk) c) = (r, s', net') \<Longrightarrow>
     reachable P s'"
| evicted: "reachable P (Live d) \<Longrightarrow> reachable P (Dormant (storage d))"

definition slot_consistent :: "slot \<Rightarrow> bool" where
  "slot_consistent s =
    (case s of
       Live d \<Rightarrow> cache_consistent d
     | Dormant st \<Rightarrow> truthy (st ''refresh_token'') \<or> \<not> truthy (st ''access_token''))"

text \<open>A blob of the bucket, with the metadata \<open>uploadFile\<close> stores.\<close>

record r2_object =
  bytes :: string
  contentType :: string
  contentDisposition :: string
  originalFileName :: string
  uploadedBy :: string
  uploadedAt :: string
  owner :: string
  uploaded :: string

record js_file =
  file_name :: string
  file_type :: string
  file_bytes :: string

record workflow_params =
  email :: "string option"
  fileId :: string
  fileName :: string
  authDoId :: string

text \<open>
  The bindings of \<^verbatim>\<open>Env\<close> and what the worker writes: the account instances, the
  bucket, the jobs created (oldest first), the network log, the number of UUIDs drawn
  and the lines of \<^verbatim>\<open>console.error\<close> (\<^verbatim>\<open>console.log\<close> is not modelled).
  Reading and writing the bucket and creating a job do not fail; deleting from the
  bucket can, as \<open>r2_delete\<close> tells.
\<close>

record world =
  AUTH_DO :: "string \<Rightarrow> slot"
  DOCUMENT_STORAGE :: "string \<rightharpoonup> r2_object"
  MY_WORKFLOW :: "workflow_params list"
  sent :: net
  uuids :: nat
  console_error :: "(string \<times> js_error option) list"

definition on_stub ::
  "platform \<Rightarrow> readings \<Rightarrow> string
     \<Rightarrow> (auth_do \<Rightarrow> net \<Rightarrow> (js_error + 'a) \<times> auth_do \<times> net)
     \<Rightarrow> world \<Rightarrow> (js_error + 'a) \<times> world" where
  "on_stub P clk name method w =
    (case with_instance P clk (AUTH_DO w name) (sent w) method of
       (r, s1, net1) \<Rightarrow> (r, w\<lparr>AUTH_DO := (AUTH_DO w)(name := s1), sent := net1\<rparr>))"

definition error_line :: "string \<Rightarrow> world \<Rightarrow> world" where
  "error_line msg w = w\<lparr>console_error := console_error w @ [(msg, None)]\<rparr>"

definition error_line_with :: "string \<Rightarrow> js_error \<Rightarrow> world \<Rightarrow> world" where
  "error_line_with msg e w = w\<lparr>console_error := console_error w @ [(msg, Some e)]\<rparr>"

text \<open>\<^verbatim>\<open>authDoStub.isRegistered()\<close> through a stub.\<close>

definition stub_isRegistered ::
  "platform \<Rightarrow> readings \<Rightarrow> string \<Rightarrow> world \<Rightarrow> (js_error + bool) \<times> world" where
  "stub_isRegistered P clk name w = on_stub P clk name (\<lambda>d net. (Inr (isRegistered d), d, net)) w"

section \<open>Staging a document (\<^verbatim>\<open>upload-utils.ts\<close>)\<close>

record upload_result =
  success :: bool
  result_fileId :: string
  result_fileName :: string
  workflowId :: string
  workflowStatus :: string
  result_email :: "string option"

definition uploadFile ::
  "platform \<Rightarrow> readings \<Rightarrow> js_file \<Rightarrow> string \<Rightarrow> string option \<Rightarrow> world
     \<Rightarrow> (js_error + upload_result) \<times> world" where
  "uploadFile P clk file authDoId' email' w =
    (case stub_isRegistered P clk authDoId' w of
       (Inl e, w1) \<Rightarrow> (Inl e, w1)
     | (Inr isRegistered', w1) \<Rightarrow>
         if \<not> isRegistered' then
           (Inl (Error ''Device not registered or authentication expired''),
            error_line (''Authentication check failed for authDoId: '' @ authDoId') w1)
         else
           let fileId' = randomUUID P (uuids w1);
               w2 = w1\<lparr>uuids := Suc (uuids w1)\<rparr>;
               w3 = w2\<lparr>DOCUMENT_STORAGE := (DOCUMENT_STORAGE w2)(fileId' \<mapsto>
                      \<lparr>bytes = file_bytes file,
                       contentType = file_type file,
                       contentDisposition = ''attachment; filename='' @ quoted (file_name file),
                       originalFileName = file_name file,
                       uploadedBy = (if truthy email' then render email' else ''web-upload''),
                       uploadedAt = iso clk,
                       owner = authDoId',
                       uploaded = iso clk\<rparr>)\<rparr>;
               workflowParams =
                 \<lparr>email = (if truthy email' then email' else None),
                  fileId = fileId', fileName = file_name file, authDoId = authDoId'\<rparr>;
               instance = length (MY_WORKFLOW w3);
               w4 = w3\<lparr>MY_WORKFLOW := MY_WORKFLOW w3 @ [workflowParams]\<rparr>
           in (Inr \<lparr>success = True, result_fileId = fileId', result_fileName = file_name file,
                    workflowId = instance_id P instance,
                    workflowStatus = instance_status P instance,
                    result_email = email'\<rparr>,
               w4))"

section \<open>The upload job (\<^verbatim>\<open>workflow.ts\<close>)\<close>

text \<open>
  \<^verbatim>\<open>step.do\<close>: the callback runs; when it raises it runs again, at most \<open>n\<close> more
  times; when the last attempt raises, \<^verbatim>\<open>step.do\<close> raises that error. \<open>k\<close> counts the
  attempts, from 0.
\<close>

fun step_do ::
  "nat \<Rightarrow> (nat \<Rightarrow> 'w \<Rightarrow> (js_error + 'a) \<times> 'w) \<Rightarrow> nat \<Rightarrow> 'w \<Rightarrow> (js_error + 'a) \<times> 'w" where
  "step_do 0 callback k w = callback k w"
| "step_do (Suc n) callback k w =
     (case callback k w of
        (Inl e, w1) \<Rightarrow> step_do n callback (Suc k) w1
      | (Inr a, w1) \<Rightarrow> (Inr a, w1))"

record file_info =
  info_email :: "string option"
  info_fileId :: string
  info_fileName :: string
  fileSize :: nat
  lastModified :: string
  info_authDoId :: string

record api_response =
  uploaded_at :: string
  remarkableResponse :: string

definition retrieve_file_info ::
  "workflow_params \<Rightarrow> world \<Rightarrow> (js_error + file_info) \<times> world" where
  "retrieve_file_info payload w =
    (case DOCUMENT_STORAGE w (fileId payload) of
       None \<Rightarrow> (Inl (Error (''File with ID '' @ fileId payload @ '' not found'')), w)
     | Some file \<Rightarrow>
         (Inr \<lparr>info_email = email payload, info_fileId = fileId payload,
               info_fileName = fileName payload, fileSize = length (bytes file),
               lastModified = uploaded file, info_authDoId = authDoId payload\<rparr>, w))"

definition get_authentication ::
  "platform \<Rightarrow> readings \<Rightarrow> workflow_params \<Rightarrow> world \<Rightarrow> (js_error + string) \<times> world" where
  "get_authentication P clk payload w =
    (case on_stub P clk (authDoId payload)
            (getAccessToken P (at_cached clk) (at_persisted clk)) w of
       (Inl e, w1) \<Rightarrow> (Inl e, w1)
     | (Inr accessToken, w1) \<Rightarrow>
         if \<not> truthy accessToken then
           (Inl (Error ''No valid access token available. Device may not be registered.''), w1)
         else (Inr (render accessToken), w1))"

definition upload_to_reMarkable ::
  "platform \<Rightarrow> readings \<Rightarrow> workflow_params \<Rightarrow> file_info \<Rightarrow> string \<Rightarrow> world
     \<Rightarrow> (js_error + api_response) \<times> world" where
  "upload_to_reMarkable P clk payload fileInfo accessToken w =
    (case DOCUMENT_STORAGE w (fileId payload) of
       None \<Rightarrow> (Inl (Error (''File with ID '' @ fileId payload @ '' not found in R2'')), w)
     | Some file \<Rightarrow>
         let contentType' =
               (if contentType file \<noteq> [] then contentType file else ''application/octet-stream'')
         in (case meta_header P (info_fileName fileInfo) of
               None \<Rightarrow> (Inl InvalidCharacterError, w)
             | Some rmMetaBase64 \<Rightarrow>
                 (case fetch P (sent w)
                         (Upload_request ''https://eu.tectonic.remarkable.com/doc/v2/files''
                            accessToken contentType' rmMetaBase64 (bytes file)) of
                    (Transport_failure, net1) \<Rightarrow> (Inl Fetch_failed, w\<lparr>sent := net1\<rparr>)
                  | (Response code text, net1) \<Rightarrow>
                      if \<not> (200 \<le> code \<and> code \<le> 299) then
                        let msg = ''reMarkable API error ('' @ show_nat code @ ''): '' @ text
                        in (Inl (Error msg), error_line msg (w\<lparr>sent := net1\<rparr>))
                      else if \<not> json_valid P text then (Inl SyntaxError, w\<lparr>sent := net1\<rparr>)
                      else (Inr \<lparr>uploaded_at = iso clk, remarkableResponse = text\<rparr>,
                            w\<lparr>sent := net1\<rparr>))))"

text \<open>
  The callback of the last step (lines 106-117): the delete inside \<^verbatim>\<open>try\<close>; the
  \<^verbatim>\<open>catch\<close> reports the error and throws it again.
\<close>

definition delete_line :: "file_info \<Rightarrow> string" where
  "delete_line fileInfo = ''Failed to delete file '' @ info_fileName fileInfo @ '' from R2:''"

definition cleanup_and_delete_file ::
  "platform \<Rightarrow> file_info \<Rightarrow> nat \<Rightarrow> world \<Rightarrow> (js_error + unit) \<times> world" where
  "cleanup_and_delete_file P fileInfo k w =
    (case r2_delete P k (info_fileId fileInfo) of
       None \<Rightarrow> (Inr (), w\<lparr>DOCUMENT_STORAGE := (DOCUMENT_STORAGE w)(info_fileId fileInfo := None)\<rparr>)
     | Some error \<Rightarrow>
         (Inl error, error_line_with (delete_line fileInfo) error w))"

text \<open>
  The first three steps (lines 19-99): they yield the file info the last step uses.
\<close>

definition upload_steps ::
  "platform \<Rightarrow> (nat \<Rightarrow> readings) \<Rightarrow> workflow_params \<Rightarrow> world
     \<Rightarrow> (js_error + file_info) \<times> world" where
  "upload_steps P clk payload w =
    (case step_do (retry_limit P) (\<lambda>k. retrieve_file_info payload) 0 w of
       (Inl e, w1) \<Rightarrow> (Inl e, w1)
     | (Inr fileInfo, w1) \<Rightarrow>
    (case step_do (retry_limit P) (\<lambda>k. get_authentication P (clk k) payload) 0 w1 of
       (Inl e, w2) \<Rightarrow> (Inl e, w2)
     | (Inr accessToken, w2) \<Rightarrow>
    (case step_do (retry_limit P)
            (\<lambda>k. upload_to_reMarkable P (clk k) payload fileInfo accessToken) 0 w2 of
       (Inl e, w3) \<Rightarrow> (Inl e, w3)
     | (Inr apiResponse, w3) \<Rightarrow> (Inr fileInfo, w3))))"

text \<open>
  \<open>run\<close> returns normally when the job completes and raises when it ends errored.
  \<open>clk k\<close> are the clock readings of the \<open>k\<close>-th attempt of a step. The 24 hours of
  \<^verbatim>\<open>step.sleep\<close> change nothing the job holds.
\<close>

definition run ::
  "platform \<Rightarrow> (nat \<Rightarrow> readings) \<Rightarrow> workflow_params \<Rightarrow> world \<Rightarrow> (js_error + unit) \<times> world" where
  "run P clk payload w =
    (case upload_steps P clk payload w of
       (Inl e, w3) \<Rightarrow> (Inl e, w3)
     | (Inr fileInfo, w3) \<Rightarrow>
         step_do (retry_limit P) (cleanup_and_delete_file P fileInfo) 0 w3)"

section \<open>The entry points (the worker's main module)\<close>

datatype json_value = JString string | JBool bool | JMessage js_error

record http_response =
  http_status :: nat
  http_json :: "(string \<times> json_value) list"

text \<open>
  The body of \<^verbatim>\<open>POST /register\<close> as \<^verbatim>\<open>c.req.json()\<close> and the destructuring see it:
  parsing raises, or there is an object whose \<^verbatim>\<open>linkCode\<close> is a string or is missing.
\<close>

datatype register_body = Unparseable | Parsed "string option"

definition post_register ::
  "platform \<Rightarrow> readings \<Rightarrow> string option \<Rightarrow> register_body \<Rightarrow> world \<Rightarrow> http_response \<times> world" where
  "post_register P clk SIGNUP_DISABLED body w =
    (if SIGNUP_DISABLED \<noteq> Some ''false'' then
       (\<lparr>http_status = 403, http_json = [(''error'', JString ''Signup is currently disabled'')]\<rparr>,
        error_line ''Signup is currently disabled'' w)
     else
       (case body of
          Unparseable \<Rightarrow>
            (\<lparr>http_status = 500,
              http_json = [(''error'', JString ''Registration failed''),
                           (''details'', JMessage SyntaxError)]\<rparr>,
             error_line_with ''Registration error:'' SyntaxError w)
        | Parsed linkCode \<Rightarrow>
            if \<not> truthy linkCode then
              (\<lparr>http_status = 400, http_json = [(''error'', JString ''Link code is required'')]\<rparr>,
               error_line ''Registration failed: No link code provided'' w)
            else
              let deviceId = randomUUID P (uuids w);
                  authDoId' = randomUUID P (Suc (uuids w));
                  w1 = w\<lparr>uuids := Suc (Suc (uuids w))\<rparr>
              in (case on_stub P clk authDoId'
                         (register P (at_persisted clk) (render linkCode) deviceId) w1 of
                    (Inl e, w2) \<Rightarrow>
                      (\<lparr>http_status = 500,
                        http_json = [(''error'', JString ''Registration failed''),
                                     (''details'', JMessage e)]\<rparr>,
                       error_line_with ''Registration error:'' e w2)
                  | (Inr (RegisterResult dev), w2) \<Rightarrow>
                      (\<lparr>http_status = 200,
                        http_json =
                          [(''success'', JBool True), (''authId'', JString authDoId'),
                           (''message'', JString
                              ''Device registered successfully. Use the authId for future API calls.'')]\<rparr>,
                       w2)
                  | (Inr (AuthError msg), w2) \<Rightarrow>
                      (\<lparr>http_status = 400, http_json = [(''error'', JString msg)]\<rparr>,
                       error_line (''Registration failed: '' @ msg) w2))))"

text \<open>
  The inbound email as the MIME parser hands it over. The handler answers with the reason
  of \<^verbatim>\<open>message.setReject\<close>, if it rejects. After the two guards, line 182 reads the
  identifier \<^verbatim>\<open>toAddress\<close>, which nothing in the module declares: evaluating it raises
  a \<^verbatim>\<open>ReferenceError\<close>, and lines 183-197 (the extraction of the account id and the
  loop over the attachments) are never reached.
\<close>

record attachment =
  filename :: "string option"
  mimeType :: "string option"
  content :: string

record parsed_email =
  sender :: string
  subject :: "string option"
  recipients :: "string list option"
  attachments :: "attachment list option"

definition email_handler ::
  "platform \<Rightarrow> readings \<Rightarrow> parsed_email \<Rightarrow> world \<Rightarrow> (js_error + string option) \<times> world" where
  "email_handler P clk mail w =
    (if attachments mail = None \<or> attachments mail = Some [] then
       (Inr (Some ''Email must contain at least one attachment''),
        error_line ''Email has no attachments'' w)
     else if recipients mail = None \<or> recipients mail = Some [] then
       (Inr (Some ''Email must have a 'to' address''),
        error_line (''Email has no '' @ quoted ''to'' @ '' address'') w)
     else (Inl (ReferenceError ''toAddress''), w))"

section \<open>Scenarios\<close>

text \<open>
  Scenario A of the specification: link code \<open>ABC123\<close>, device \<open>dev-1\<close>, the
  registration endpoint answers \<open>RT1\<close> and the token endpoint a token whose payload is
  \<^verbatim>\<open>{"exp":4600}\<close>. Every other link code or bearer is refused. The discovery
  endpoint answers \<^verbatim>\<open>{"webapp":"webapp.test","notifications":"notify.test"}\<close>.
\<close>

definition fresh_token :: string where
  "fresh_token = ''eyJhbGciOiJIUzI1NiJ9.eyJleHAiOjQ2MDB9.c2ln''"

definition stale_token :: string where
  "stale_token = ''eyJhbGciOiJIUzI1NiJ9.eyJleHAiOjEwMH0.c2ln''"

definition scenario_jwt_exp :: "string \<Rightarrow> int option" where
  "scenario_jwt_exp tok =
    (if tok = fresh_token then Some 4600 else if tok = stale_token then Some 100 else None)"

definition discovery_body :: string where
  "discovery_body =
     ''{'' @ quoted ''webapp'' @ '':'' @ quoted ''webapp.test'' @ '','' @
     quoted ''notifications'' @ '':'' @ quoted ''notify.test'' @ ''}''"

definition scenario_discovery :: "string \<Rightarrow> (json_field \<times> json_field) option" where
  "scenario_discovery body =
    (if body = discovery_body then
       Some (Field True ''webapp.test'', Field True ''notify.test'')
     else None)"

definition scenario_upstream :: "nat \<Rightarrow> request \<Rightarrow> fetch_result" where
  "scenario_upstream n req =
    (case req of
       Discovery_request url \<Rightarrow> Response 200 discovery_body
     | Device_request url code dev \<Rightarrow>
         if code = ''ABC123'' then Response 200 ''RT1'' else Response 400 ''Invalid One-time-code''
     | Token_request url bearer \<Rightarrow>
         if bearer = ''RT1'' then Response 200 fresh_token else Response 401 []
     | Upload_request url bearer ctype meta data \<Rightarrow>
         if bearer = fresh_token then Response 201 ''{}'' else Response 401 [])"

definition scenario_platform :: platform where
  "scenario_platform =
    \<lparr>jwt_exp = scenario_jwt_exp, discovery_fields = scenario_discovery,
     upstream = scenario_upstream,
     randomUUID = (\<lambda>n. ''uuid-'' @ show_nat n),
     instance_id = (\<lambda>n. ''job-'' @ show_nat n),
     instance_status = (\<lambda>n. ''queued''),
     meta_header = (\<lambda>name. Some (''meta:'' @ name)),
     json_valid = (\<lambda>text. True),
     retry_limit = 5,
     r2_delete = (\<lambda>k key. None)\<rparr>"

text \<open>The same upstream when every network call fails in transport.\<close>

definition outage_platform :: platform where
  "outage_platform = scenario_platform\<lparr>upstream := (\<lambda>n req. Transport_failure)\<rparr>"

text \<open>An upstream whose token endpoint hands out a token that expired at second 100.\<close>

definition stale_platform :: platform where
  "stale_platform = scenario_platform\<lparr>upstream := (\<lambda>n req. Response 200 stale_token)\<rparr>"

text \<open>A bucket whose delete fails at every attempt, with one retry granted.\<close>

definition failing_delete_platform :: platform where
  "failing_delete_platform =
    scenario_platform\<lparr>retry_limit := 1, r2_delete := (\<lambda>k key. Some (R2Error ''unavailable''))\<rparr>"

text \<open>An instance after a successful registration, and one with no cached token.\<close>

definition registered_do :: auth_do where
  "registered_do =
    \<lparr>storage = [''device_id'' \<mapsto> ''dev-1'', ''refresh_token'' \<mapsto> ''RT1'',
                 ''access_token'' \<mapsto> fresh_token],
     access_token = Some fresh_token,
     auth_host = Some ''https://webapp.test'', sync_host = Some ''https://notify.test''\<rparr>"

definition unregistered_do :: auth_do where
  "unregistered_do =
    \<lparr>storage = Map.empty, access_token = None,
     auth_host = Some ''https://webapp.test'', sync_host = Some ''https://notify.test''\<rparr>"

definition uncached_do :: auth_do where
  "uncached_do =
    \<lparr>storage = [''device_id'' \<mapsto> ''dev-1'', ''refresh_token'' \<mapsto> ''RT1''],
     access_token = None,
     auth_host = Some ''https://webapp.test'', sync_host = Some ''https://notify.test''\<rparr>"

text \<open>Scenario B: a 10-byte file, and a world where nothing was ever registered.\<close>

definition scenario_clock :: readings where
  "scenario_clock =
    \<lparr>at_constructor = 1000, at_cached = 1000, at_persisted = 1000,
     iso = ''1970-01-01T00:16:40.000Z''\<rparr>"

definition empty_world :: world where
  "empty_world =
    \<lparr>AUTH_DO = (\<lambda>name. Dormant Map.empty), DOCUMENT_STORAGE = Map.empty, MY_WORKFLOW = [],
     sent = [], uuids = 0, console_error = []\<rparr>"

definition ten_bytes :: js_file where
  "ten_bytes = \<lparr>file_name = ''notes.pdf'', file_type = ''application/pdf'',
                 file_bytes = ''0123456789''\<rparr>"

text \<open>Scenario D: the account \<open>acct-1\<close> is registered and its document \<open>doc-1\<close> is staged.\<close>

definition staged_world :: world where
  "staged_world =
    empty_world\<lparr>AUTH_DO := (\<lambda>name. Dormant Map.empty)(''acct-1'' := Live registered_do),
                DOCUMENT_STORAGE :=
                  [''doc-1'' \<mapsto>
                     \<lparr>bytes = ''0123456789'', contentType = ''application/pdf'',
                      contentDisposition = ''attachment; filename='' @ quoted ''notes.pdf'',
                      originalFileName = ''notes.pdf'', uploadedBy = ''web-upload'',
                      uploadedAt = ''1970-01-01T00:16:40.000Z'', owner = ''acct-1'',
                      uploaded = ''1970-01-01T00:16:40.000Z''\<rparr>]\<rparr>"

definition staged_info :: file_info where
  "staged_info =
    \<lparr>info_email = None, info_fileId = ''doc-1'', info_fileName = ''notes.pdf'', fileSize = 10,
     lastModified = ''1970-01-01T00:16:40.000Z'', info_authDoId = ''acct-1''\<rparr>"

definition staged_job :: workflow_params where
  "staged_job = \<lparr>email = None, fileId = ''doc-1'', fileName = ''notes.pdf'', authDoId = ''acct-1''\<rparr>"

text \<open>An email with one attachment, sent to \<open>acct-1\<close>.\<close>

definition scenario_mail :: parsed_email where
  "scenario_mail =
    \<lparr>sender = ''reader@example.org'', subject = Some ''notes'',
     recipients = Some [''acct-1@send-to-remarkable.zegs.me''],
     attachments = Some [\<lparr>filename = Some ''notes.pdf'', mimeType = Some ''application/pdf'',
                             content = ''0123456789''\<rparr>]\<rparr>"

section \<open>Properties of the account instance\<close>

lemmas scenario_defs = scenario_platform_def scenario_jwt_exp_def scenario_discovery_def
  scenario_upstream_def registered_do_def uncached_do_def unregistered_do_def fresh_token_def
  stale_token_def

lemmas world_defs = scenario_clock_def empty_world_def ten_bytes_def staged_world_def
  staged_job_def staged_info_def

lemmas worker_defs = on_stub_def with_instance_def stub_isRegistered_def constructor_def
  initializeApiHost_def error_line_def error_line_with_def

lemmas job_defs = upload_steps_def run_def retrieve_file_info_def get_authentication_def
  upload_to_reMarkable_def cleanup_and_delete_file_def

lemmas auth_defs = isRegistered_def getAccessToken_def checkRegisteredStatus_def
  valid_token_def token_unexpired_def fetch_def truthy_def refresh_request_def
  register_request_def register_def refresh_failed_def cache_consistent_def render_def

subsection \<open>The cache invariant\<close>

lemma checkRegisteredStatus_consistent:
  "checkRegisteredStatus P now d net = (r, d', net') \<Longrightarrow> cache_consistent d \<Longrightarrow>
   cache_consistent d'"
  by (auto simp: checkRegisteredStatus_def cache_consistent_def valid_token_def fetch_def truthy_def
      split: option.splits fetch_result.splits if_splits)

lemma getAccessToken_consistent:
  "getAccessToken P now now' d net = (r, d', net') \<Longrightarrow> cache_consistent d \<Longrightarrow>
   cache_consistent d'"
  by (auto simp: getAccessToken_def split: prod.splits sum.splits if_splits
      dest: checkRegisteredStatus_consistent)

lemma device_id_consistent:
  "cache_consistent d \<Longrightarrow> cache_consistent (d\<lparr>storage := (storage d)(''device_id'' \<mapsto> i)\<rparr>)"
  by (auto simp: cache_consistent_def split: option.splits)

lemma refresh_token_consistent:
  "cache_consistent d \<Longrightarrow> data \<noteq> [] \<Longrightarrow>
   cache_consistent (d\<lparr>storage := (storage d)(''refresh_token'' \<mapsto> data)\<rparr>)"
  by (auto simp: cache_consistent_def truthy_def split: option.splits)

lemma register_consistent:
  assumes "register P now c i d net = (r, d', net')" and "cache_consistent d"
  shows "cache_consistent d'"
proof -
  let ?d1 = "d\<lparr>storage := (storage d)(''device_id'' \<mapsto> i)\<rparr>"
  have 1: "cache_consistent ?d1"
    using assms(2) by (rule device_id_consistent)
  have 2: "data \<noteq> [] \<Longrightarrow>
      cache_consistent (?d1\<lparr>storage := (storage ?d1)(''refresh_token'' \<mapsto> data)\<rparr>)" for data
    using 1 by (rule refresh_token_consistent)
  show ?thesis
    using assms(1) 1 2
    by (auto simp: register_def fetch_def Let_def
        split: prod.splits sum.splits fetch_result.splits if_splits
        dest!: checkRegisteredStatus_consistent)
qed

lemma getStatus_consistent:
  "getStatus P now now' d net = (r, d', net') \<Longrightarrow> cache_consistent d \<Longrightarrow> cache_consistent d'"
  by (auto simp: getStatus_def split: prod.splits sum.splits if_splits
      dest: getAccessToken_consistent)

lemma destroy_consistent: "cache_consistent (destroy d)"
  by (simp add: destroy_def cache_consistent_def truthy_def)

lemma rpc_consistent:
  "rpc P now now' c d net = (r, d', net') \<Longrightarrow> cache_consistent d \<Longrightarrow> cache_consistent d'"
  by (cases c)
     (auto simp: rpc_def destroy_consistent split: prod.splits
       dest: register_consistent getAccessToken_consistent getStatus_consistent)

lemma initializeApiHost_frame:
  "initializeApiHost P d net = (r, d', net') \<Longrightarrow>
   storage d' = storage d \<and> access_token d' = access_token d"
  by (auto simp: initializeApiHost_def fetch_def Let_def
      split: fetch_result.splits option.splits if_splits prod.splits)

lemma constructor_consistent:
  assumes "constructor P now st net = (r, d', net')"
    and "truthy (st ''refresh_token'') \<or> \<not> truthy (st ''access_token'')"
  shows "cache_consistent d'"
proof -
  let ?d0 = "\<lparr>storage = st, access_token = None, auth_host = None, sync_host = None\<rparr>"
  obtain r1 d1 net1 where i: "initializeApiHost P ?d0 net = (r1, d1, net1)"
    by (cases "initializeApiHost P ?d0 net") auto
  from initializeApiHost_frame [OF i] assms(2) have c1: "cache_consistent d1"
    by (simp add: cache_consistent_def)
  show ?thesis
    using assms(1) i c1
    by (auto simp: constructor_def Let_def split: sum.splits prod.splits
        dest: checkRegisteredStatus_consistent)
qed

lemma refresh_token_kept:
  assumes "rpc P t t' c d net = (r, d', net')" and "c \<noteq> Destroy"
    and "truthy (storage d ''refresh_token'')"
  shows "truthy (storage d' ''refresh_token'')"
  using assms
  by (cases c)
     (auto simp: rpc_def getStatus_def getAccessToken_def checkRegisteredStatus_def register_def
        fetch_def Let_def truthy_def
      split: if_splits option.splits fetch_result.splits prod.splits sum.splits)

lemma consistent_storage:
  "cache_consistent d \<Longrightarrow> truthy (storage d ''refresh_token'') \<or> \<not> truthy (storage d ''access_token'')"
  by (simp add: cache_consistent_def)

lemma with_instance_consistent:
  assumes "with_instance P clk s net (rpc P t t' c) = (r, s', net')" and "slot_consistent s"
  shows "slot_consistent s'"
proof (cases s)
  case (Live d)
  with assms show ?thesis
    by (auto simp: with_instance_def slot_consistent_def split: prod.splits dest: rpc_consistent)
next
  case (Dormant st)
  obtain r1 d1 net1 where c: "constructor P (at_constructor clk) st net = (r1, d1, net1)"
    by (cases "constructor P (at_constructor clk) st net") auto
  from constructor_consistent [OF c] assms(2) Dormant have d1: "cache_consistent d1"
    by (simp add: slot_consistent_def)
  show ?thesis
  proof (cases r1)
    case (Inl e)
    with assms(1) Dormant c consistent_storage [OF d1] show ?thesis
      by (auto simp: with_instance_def slot_consistent_def)
  next
    case (Inr u)
    with assms(1) Dormant c d1 show ?thesis
      by (auto simp: with_instance_def slot_consistent_def split: prod.splits dest: rpc_consistent)
  qed
qed

lemma reachable_consistent: "reachable P s \<Longrightarrow> slot_consistent s"
proof (induction rule: reachable.induct)
  case created
  show ?case by (simp add: slot_consistent_def truthy_def)
next
  case (called s clk net c r s' net')
  then show ?case by (blast intro: with_instance_consistent)
next
  case (evicted d)
  then show ?case by (simp add: slot_consistent_def cache_consistent_def)
qed

lemma registered_do_reachable: "reachable scenario_platform (Live registered_do)"
proof -
  let ?run = "with_instance scenario_platform scenario_clock (Dormant Map.empty) []
      (rpc scenario_platform (at_cached scenario_clock) (at_persisted scenario_clock)
         (Register ''ABC123'' ''dev-1''))"
  have "fst (snd ?run) = Live registered_do"
    by (simp add: with_instance_def constructor_def initializeApiHost_def rpc_def
        scenario_defs auth_defs world_defs)
  then obtain r net' where "?run = (r, Live registered_do, net')"
    by (cases ?run) auto
  with created [of scenario_platform] show ?thesis
    by (rule called)
qed

subsection \<open>Access tokens\<close>

text \<open>
  Claim C1, as the specification states it, fails: a registered instance with no cached
  token, at second 200, refreshes against a token endpoint that answers with a token whose
  \<^verbatim>\<open>exp\<close> is 100, and \<open>getAccessToken\<close> returns that token, at a call time after its
  expiry.
\<close>

theorem getAccessToken_returns_expired_fresh_token:
  "isRegistered uncached_do \<and>
   fst (getAccessToken stale_platform 200 200 uncached_do []) = Inr (Some stale_token) \<and>
   jwt_exp stale_platform stale_token = Some 100 \<and> \<not> (100 > (200::int))"
  by (simp add: stale_platform_def scenario_defs auth_defs)

text \<open>
  Claim C1, amended. With clock readings \<open>t \<le> t'\<close> (the clock does not run backwards
  during the call), every call of \<open>getAccessToken\<close> ends in one of five ways:
  it makes no network call and returns a cached or persisted credential whose decoded
  expiry is strictly greater than the call time \<open>t\<close>; or it makes exactly one call, the
  refresh, and returns the non-empty body of the 200 reply as received, with no expiry
  check; or it returns absent without a network call, there being no refresh credential;
  or it returns absent after exactly one refresh call that was answered with a status
  other than 200 or an empty body; or it raises, after exactly one refresh call that
  failed in transport.
\<close>

theorem getAccessToken_outcomes:
  assumes "getAccessToken P t t' d net = (r, d', net')" and "t \<le> t'"
  shows "(\<exists>tok E. r = Inr (Some tok) \<and> net' = net \<and> jwt_exp P tok = Some E \<and> t < E) \<or>
         (\<exists>tok rt. r = Inr (Some tok) \<and> tok \<noteq> [] \<and> storage d ''refresh_token'' = Some rt \<and>
            net' = net @ [refresh_request d rt] \<and>
            upstream P (length net) (refresh_request d rt) = Response 200 tok) \<or>
         (r = Inr None \<and> net' = net \<and> \<not> truthy (storage d ''refresh_token'')) \<or>
         (\<exists>rt status data. r = Inr None \<and> storage d ''refresh_token'' = Some rt \<and>
            net' = net @ [refresh_request d rt] \<and>
            upstream P (length net) (refresh_request d rt) = Response status data \<and>
            (status \<noteq> 200 \<or> data = [])) \<or>
         (\<exists>rt. r = Inl Fetch_failed \<and> storage d ''refresh_token'' = Some rt \<and>
            net' = net @ [refresh_request d rt] \<and>
            upstream P (length net) (refresh_request d rt) = Transport_failure)"
  using assms
  by (auto simp: getAccessToken_def checkRegisteredStatus_def valid_token_def token_unexpired_def
      truthy_def fetch_def Let_def split: if_splits option.splits fetch_result.splits)

theorem getAccessToken_outcomes_witness:
  "(1000::int) \<le> 1001 \<and>
   getAccessToken scenario_platform 1000 1001 registered_do [] =
     (Inr (Some fresh_token), registered_do, []) \<and>
   jwt_exp scenario_platform fresh_token = Some 4600 \<and> (1000::int) < 4600 \<and>
   getAccessToken stale_platform 1000 1001 uncached_do [] =
     (Inr (Some stale_token),
      uncached_do\<lparr>access_token := Some stale_token,
                  storage := (storage uncached_do)(''access_token'' \<mapsto> stale_token)\<rparr>,
      [refresh_request uncached_do ''RT1'']) \<and>
   upstream stale_platform (length ([]::net)) (refresh_request uncached_do ''RT1'') =
     Response 200 stale_token \<and>
   getAccessToken scenario_platform 1000 1001 unregistered_do [] =
     (Inr None, unregistered_do, []) \<and>
   getAccessToken outage_platform 1000 1001 uncached_do [] =
     (Inl Fetch_failed, uncached_do, [refresh_request uncached_do ''RT1'']) \<and>
   upstream outage_platform (length ([]::net)) (refresh_request uncached_do ''RT1'') =
     Transport_failure"
  using getAccessToken_outcomes
      [where P = scenario_platform and t = 1000 and t' = 1001 and d = registered_do
         and net = "[]" and r = "Inr (Some fresh_token)" and d' = registered_do and net' = "[]"]
    getAccessToken_outcomes
      [where P = stale_platform and t = 1000 and t' = 1001 and d = uncached_do
         and net = "[]" and r = "Inr (Some stale_token)"
         and d' = "uncached_do\<lparr>access_token := Some stale_token,
                  storage := (storage uncached_do)(''access_token'' \<mapsto> stale_token)\<rparr>"
         and net' = "[refresh_request uncached_do ''RT1'']"]
    getAccessToken_outcomes
      [where P = scenario_platform and t = 1000 and t' = 1001 and d = unregistered_do
         and net = "[]" and r = "Inr None" and d' = unregistered_do and net' = "[]"]
    getAccessToken_outcomes
      [where P = outage_platform and t = 1000 and t' = 1001 and d = uncached_do
         and net = "[]" and r = "Inl Fetch_failed" and d' = uncached_do
         and net' = "[refresh_request uncached_do ''RT1'']"]
  by (simp add: stale_platform_def outage_platform_def scenario_defs auth_defs)


text \<open>
  Claim C2, as the specification states it, fails: when the refresh call fails in
  transport, the rejection of \<^verbatim>\<open>fetch\<close> is caught nowhere and \<open>getAccessToken\<close> raises.
\<close>

theorem getAccessToken_raises_on_transport_failure:
  "fst (getAccessToken outage_platform 200 200 uncached_do []) = Inl Fetch_failed"
  by (simp add: outage_platform_def scenario_defs auth_defs)

text \<open>
  Claim C2, amended. For every state, \<open>getAccessToken\<close> raises exactly when it made a
  network call and that call failed in transport; for every reply of the token endpoint,
  whatever its status and body, it raises nothing and returns a credential or absent.
\<close>

theorem getAccessToken_raises_iff_transport_failure:
  "(\<exists>e. fst (getAccessToken P t t' d net) = Inl e) \<longleftrightarrow>
   (\<exists>req. snd (snd (getAccessToken P t t' d net)) = net @ [req] \<and>
          upstream P (length net) req = Transport_failure)"
  by (auto simp: getAccessToken_def checkRegisteredStatus_def fetch_def Let_def
      split: if_splits option.splits fetch_result.splits)

text \<open>
  Claim C7. In every state an instance can reach, with a credential of decoded expiry
  \<open>E\<close> cached in memory: called at a time \<open>t < E\<close>, \<open>getAccessToken\<close> returns the
  cached credential, changes nothing and makes no network call; called at \<open>t \<ge> E\<close>, it
  makes exactly one network call, the refresh with the persisted refresh credential.
  \<open>t\<close> and \<open>t'\<close> are the two readings of the clock, which does not run backwards.
\<close>

theorem cached_token_network_calls:
  assumes "reachable P (Live d)" and "access_token d = Some tok" and "jwt_exp P tok = Some E"
  shows "(t < E \<longrightarrow> getAccessToken P t t' d net = (Inr (Some tok), d, net)) \<and>
         (E \<le> t \<and> t \<le> t' \<longrightarrow>
            (\<exists>rt. storage d ''refresh_token'' = Some rt \<and>
                  snd (snd (getAccessToken P t t' d net)) = net @ [refresh_request d rt]))"
proof -
  from reachable_consistent [OF assms(1)] have "cache_consistent d"
    by (simp add: slot_consistent_def)
  with assms(2,3) show ?thesis
    by (auto simp: getAccessToken_def checkRegisteredStatus_def valid_token_def token_unexpired_def
      cache_consistent_def truthy_def fetch_def Let_def
      split: if_splits option.splits fetch_result.splits)
qed

theorem cached_token_network_calls_witness:
  "reachable scenario_platform (Live registered_do) \<and>
   access_token registered_do = Some fresh_token \<and>
   jwt_exp scenario_platform fresh_token = Some 4600 \<and>
   getAccessToken scenario_platform 4599 4599 registered_do [] =
     (Inr (Some fresh_token), registered_do, []) \<and>
   snd (snd (getAccessToken scenario_platform 4600 4601 registered_do [])) =
     [refresh_request registered_do ''RT1'']"
  using registered_do_reachable
    cached_token_network_calls [where P = scenario_platform and d = registered_do
      and tok = fresh_token and E = 4600 and t = 4599 and t' = 4599 and net = "[]"]
    cached_token_network_calls [where P = scenario_platform and d = registered_do
      and tok = fresh_token and E = 4600 and t = 4600 and t' = 4601 and net = "[]"]
  by (simp add: scenario_defs auth_defs)

subsection \<open>The refresh credential\<close>

lemma checkRegisteredStatus_device_id:
  "checkRegisteredStatus P now d net = (r, d', net') \<Longrightarrow>
   storage d' ''device_id'' = storage d ''device_id''"
  by (auto simp: checkRegisteredStatus_def fetch_def Let_def
      split: option.splits fetch_result.splits if_splits)

lemma register_persists_device_id:
  "register P now linkCode deviceId d net = (r, d', net') \<Longrightarrow>
   storage d' ''device_id'' = Some deviceId"
  by (auto simp: register_def fetch_def Let_def
      split: prod.splits sum.splits fetch_result.splits if_splits
      dest!: checkRegisteredStatus_device_id)

text \<open>
  Claim C6. When the registration endpoint answers with a status other than 200 or with an
  empty body, \<open>register\<close> returns an \<open>AuthError\<close> and the only change to the instance is the
  persisted \<open>device_id\<close>: the refresh credential field is exactly what it was before the
  call (absent when it was absent), and the device id stays persisted.
\<close>

theorem register_failure_keeps_refresh_token:
  assumes "upstream P (length net) (register_request d linkCode deviceId) = Response status data"
    and "status \<noteq> 200 \<or> data = []"
  shows "(\<exists>msg. fst (register P now linkCode deviceId d net) = Inr (AuthError msg)) \<and>
         fst (snd (register P now linkCode deviceId d net)) =
           d\<lparr>storage := (storage d)(''device_id'' \<mapsto> deviceId)\<rparr> \<and>
         storage (fst (snd (register P now linkCode deviceId d net))) ''refresh_token'' =
           storage d ''refresh_token'' \<and>
         storage (fst (snd (register P now linkCode deviceId d net))) ''device_id'' = Some deviceId"
  using assms
  by (auto simp: register_def fetch_def Let_def register_request_def)

theorem register_failure_keeps_refresh_token_witness:
  "upstream scenario_platform (length ([]::net))
     (register_request unregistered_do ''WRONG'' ''dev-1'') = Response 400 ''Invalid One-time-code'' \<and>
   (400::nat) \<noteq> 200 \<and>
   fst (register scenario_platform 1000 ''WRONG'' ''dev-1'' unregistered_do []) =
     Inr (AuthError ''Failed to register (response code): 400'') \<and>
   storage (fst (snd (register scenario_platform 1000 ''WRONG'' ''dev-1'' unregistered_do [])))
     ''refresh_token'' = None \<and>
   storage (fst (snd (register scenario_platform 1000 ''WRONG'' ''dev-1'' unregistered_do [])))
     ''device_id'' = Some ''dev-1''"
  using register_failure_keeps_refresh_token
    [of scenario_platform "[]" unregistered_do "''WRONG''" "''dev-1''" 400 "''Invalid One-time-code''" 1000]
  by (simp add: scenario_defs auth_defs show_nat.simps digit_char_def)

text \<open>
  Claim C9. When the refresh fails (a transport failure, a status other than 200 or an
  empty body), \<open>checkRegisteredStatus\<close> and \<open>getAccessToken\<close> leave the whole persisted
  record, and so the refresh credential, unchanged. No method but \<open>destroy\<close> removes the
  refresh credential, and \<open>destroy\<close> does.
\<close>

theorem failed_refresh_keeps_refresh_token:
  assumes "storage d ''refresh_token'' = Some rt" and "rt \<noteq> []"
    and "refresh_failed (upstream P (length net) (refresh_request d rt))"
  shows "storage (fst (snd (checkRegisteredStatus P now d net))) = storage d \<and>
         storage (fst (snd (getAccessToken P t t' d net))) = storage d \<and>
         storage (fst (snd (getAccessToken P t t' d net))) ''refresh_token'' = Some rt \<and>
         (c \<noteq> Destroy \<longrightarrow> truthy (storage (fst (snd (rpc P t t' c d net))) ''refresh_token'')) \<and>
         storage (destroy d) ''refresh_token'' = None"
proof -
  have frame: "storage (fst (snd (checkRegisteredStatus P now d net))) = storage d" for now
    using assms
    by (auto simp: checkRegisteredStatus_def fetch_def Let_def refresh_failed_def
        split: if_splits option.splits fetch_result.splits)
  have get: "storage (fst (snd (getAccessToken P t t' d net))) = storage d"
    using frame [of t']
    by (auto simp: getAccessToken_def split: prod.splits sum.splits)
  have kept: "truthy (storage (fst (snd (rpc P t t' c d net))) ''refresh_token'')" if "c \<noteq> Destroy"
    using refresh_token_kept [of P t t' c d net, OF _ that] assms(1,2)
    by (cases "rpc P t t' c d net") (simp add: truthy_def)
  show ?thesis
    using frame get kept assms(1) by (simp add: destroy_def)
qed

theorem failed_refresh_keeps_refresh_token_witness:
  "storage uncached_do ''refresh_token'' = Some ''RT1'' \<and> ''RT1'' \<noteq> [] \<and>
   refresh_failed (upstream outage_platform (length ([]::net)) (refresh_request uncached_do ''RT1'')) \<and>
   fst (getAccessToken outage_platform 1000 1000 uncached_do []) = Inl Fetch_failed \<and>
   storage (fst (snd (getAccessToken outage_platform 1000 1000 uncached_do []))) = storage uncached_do \<and>
   truthy (storage (fst (snd (rpc outage_platform 1000 1000 GetAccessToken uncached_do [])))
     ''refresh_token'')"
  using failed_refresh_keeps_refresh_token
    [where d = uncached_do and rt = "''RT1''" and P = outage_platform and net = "[]"
       and now = 1000 and t = 1000 and t' = 1000 and c = GetAccessToken]
  by (simp add: outage_platform_def scenario_defs auth_defs)

text \<open>
  Claim C10. Whatever the state of an account instance was, after \<open>destroy\<close> the call
  \<open>isRegistered\<close> answers false and \<open>getAccessToken\<close> answers absent (without raising and
  without any network call).
\<close>

theorem destroy_then_unregistered:
  "isRegistered (destroy d) = False \<and>
   fst (getAccessToken P now now' (destroy d) net) = Inr None \<and>
   snd (snd (getAccessToken P now now' (destroy d) net)) = net"
  by (simp add: isRegistered_def destroy_def getAccessToken_def checkRegisteredStatus_def
      valid_token_def truthy_def)

section \<open>Properties of staging\<close>

text \<open>
  Claim C8. When \<open>isRegistered\<close>, called through the stub of the account, answers
  false, \<open>uploadFile\<close> raises the not-registered error, and the bucket and the list of
  jobs are what they were: no blob is stored and no job is submitted.
\<close>

theorem uploadFile_unregistered_stages_nothing:
  assumes "stub_isRegistered P clk acct w = (Inr False, w1)"
  shows "fst (uploadFile P clk doc acct mail w) =
           Inl (Error ''Device not registered or authentication expired'') \<and>
         DOCUMENT_STORAGE (snd (uploadFile P clk doc acct mail w)) = DOCUMENT_STORAGE w \<and>
         MY_WORKFLOW (snd (uploadFile P clk doc acct mail w)) = MY_WORKFLOW w"
proof -
  have "DOCUMENT_STORAGE w1 = DOCUMENT_STORAGE w \<and> MY_WORKFLOW w1 = MY_WORKFLOW w"
    using assms by (auto simp: stub_isRegistered_def on_stub_def split: prod.splits)
  then show ?thesis
    using assms by (simp add: uploadFile_def error_line_def)
qed

theorem uploadFile_unregistered_stages_nothing_witness:
  "stub_isRegistered scenario_platform scenario_clock ''nobody'' empty_world =
     (Inr False,
      empty_world\<lparr>AUTH_DO := (AUTH_DO empty_world)(''nobody'' :=
          Live \<lparr>storage = Map.empty, access_token = None,
                auth_host = Some ''https://webapp.test'', sync_host = Some ''https://notify.test''\<rparr>),
        sent := [Discovery_request ENDPOINT_DISCOVERY_URL]\<rparr>) \<and>
   fst (uploadFile scenario_platform scenario_clock ten_bytes ''nobody'' None empty_world) =
     Inl (Error ''Device not registered or authentication expired'') \<and>
   DOCUMENT_STORAGE (snd (uploadFile scenario_platform scenario_clock ten_bytes ''nobody'' None empty_world)) = Map.empty"
  using uploadFile_unregistered_stages_nothing [where P = scenario_platform and clk = scenario_clock and acct = "''nobody''"
      and w = empty_world and doc = ten_bytes and mail = None]
  by (simp add: scenario_defs auth_defs world_defs worker_defs)

section \<open>Properties of the upload job\<close>

lemma step_do_unfold:
  "step_do n callback k w =
     (case callback k w of
        (Inl e, w1) \<Rightarrow> if n = 0 then (Inl e, w1) else step_do (n - 1) callback (Suc k) w1
      | (Inr a, w1) \<Rightarrow> (Inr a, w1))"
  by (cases n) (auto split: prod.splits sum.splits)

lemmas step_unfolds =
   step_do_unfold [of _ "\<lambda>k. retrieve_file_info x" for x]
   step_do_unfold [of _ "\<lambda>k. get_authentication x y z" for x y z]
   step_do_unfold [of _ "\<lambda>k. upload_to_reMarkable P c p f a" for P c p f a]
   step_do_unfold [of _ "cleanup_and_delete_file P f" for P f]

lemma cleanup_all_fail:
  assumes "\<forall>j. k \<le> j \<and> j \<le> k + n \<longrightarrow> r2_delete P j (info_fileId fi) \<noteq> None"
  shows "\<exists>e w'. step_do n (cleanup_and_delete_file P fi) k w = (Inl e, w') \<and>
           r2_delete P (k + n) (info_fileId fi) = Some e \<and>
           DOCUMENT_STORAGE w' = DOCUMENT_STORAGE w \<and>
           console_error w' =
             console_error w @ map (\<lambda>j. (delete_line fi, r2_delete P j (info_fileId fi))) [k..<Suc (k + n)]"
  using assms
proof (induction n arbitrary: k w)
  case 0
  then obtain e where "r2_delete P k (info_fileId fi) = Some e" by auto
  then have "cleanup_and_delete_file P fi k w = (Inl e, error_line_with (delete_line fi) e w)"
      and "r2_delete P (k + 0) (info_fileId fi) = Some e"
    by (simp_all add: cleanup_and_delete_file_def)
  then show ?case
    by (simp add: error_line_with_def)
next
  case (Suc n)
  then obtain e where e: "r2_delete P k (info_fileId fi) = Some e" by auto
  let ?w1 = "error_line_with (delete_line fi) e w"
  have "\<forall>j. Suc k \<le> j \<and> j \<le> Suc k + n \<longrightarrow> r2_delete P j (info_fileId fi) \<noteq> None"
    using Suc.prems by auto
  from Suc.IH [OF this, of ?w1] obtain e' w' where
    r: "step_do n (cleanup_and_delete_file P fi) (Suc k) ?w1 = (Inl e', w')"
       "r2_delete P (Suc k + n) (info_fileId fi) = Some e'"
       "DOCUMENT_STORAGE w' = DOCUMENT_STORAGE ?w1"
       "console_error w' = console_error ?w1 @
          map (\<lambda>j. (delete_line fi, r2_delete P j (info_fileId fi))) [Suc k..<Suc (Suc k + n)]"
    by blast
  have c: "cleanup_and_delete_file P fi k w = (Inl e, ?w1)"
    using e by (simp add: cleanup_and_delete_file_def)
  have s: "step_do (Suc n) (cleanup_and_delete_file P fi) k w =
           step_do n (cleanup_and_delete_file P fi) (Suc k) ?w1"
    by (simp add: c)
  have u: "[k..<Suc (k + Suc n)] = k # [Suc k..<Suc (Suc k + n)]"
    by (simp add: upt_conv_Cons)
  have "console_error w' = console_error w @
          map (\<lambda>j. (delete_line fi, r2_delete P j (info_fileId fi))) [k..<Suc (k + Suc n)]"
    unfolding u using r(4) e by (simp add: error_line_with_def)
  moreover have "DOCUMENT_STORAGE w' = DOCUMENT_STORAGE w"
    using r(3) by (simp add: error_line_with_def)
  moreover have "r2_delete P (k + Suc n) (info_fileId fi) = Some e'"
    using r(2) by simp
  ultimately show ?case
    using r(1) unfolding s by blast
qed

lemma cleanup_some_success:
  assumes "k \<le> j" and "j \<le> k + n" and "r2_delete P j (info_fileId fi) = None"
  shows "\<exists>w'. step_do n (cleanup_and_delete_file P fi) k w = (Inr (), w') \<and>
           DOCUMENT_STORAGE w' (info_fileId fi) = None"
  using assms
proof (induction n arbitrary: k w)
  case 0
  then have "j = k" by simp
  with 0 have "cleanup_and_delete_file P fi k w =
      (Inr (), w\<lparr>DOCUMENT_STORAGE := (DOCUMENT_STORAGE w)(info_fileId fi := None)\<rparr>)"
    by (simp add: cleanup_and_delete_file_def)
  then show ?case by simp
next
  case (Suc n)
  show ?case
  proof (cases "r2_delete P k (info_fileId fi)")
    case None
    then have "cleanup_and_delete_file P fi k w =
        (Inr (), w\<lparr>DOCUMENT_STORAGE := (DOCUMENT_STORAGE w)(info_fileId fi := None)\<rparr>)"
      by (simp add: cleanup_and_delete_file_def)
    then show ?thesis by simp
  next
    case (Some e)
    with Suc.prems have "j \<noteq> k" by auto
    with Suc.prems have "Suc k \<le> j" "j \<le> Suc k + n" by simp_all
    from Suc.IH [OF this Suc.prems(3)] obtain w' where
      r: "step_do n (cleanup_and_delete_file P fi) (Suc k) (error_line_with (delete_line fi) e w) =
            (Inr (), w')" "DOCUMENT_STORAGE w' (info_fileId fi) = None"
      by blast
    have "cleanup_and_delete_file P fi k w = (Inl e, error_line_with (delete_line fi) e w)"
      using Some by (simp add: cleanup_and_delete_file_def)
    then have "step_do (Suc n) (cleanup_and_delete_file P fi) k w =
               step_do n (cleanup_and_delete_file P fi) (Suc k) (error_line_with (delete_line fi) e w)"
      by simp
    with r show ?thesis by simp
  qed
qed

text \<open>
  Claim C3, as the specification states it, fails: a job reaches the last step, the
  delete fails at both attempts the runner grants, and \<open>run\<close> raises the delete's error:
  the job ends errored, not complete.
\<close>

theorem failed_cleanup_ends_job_errored:
  "fst (upload_steps failing_delete_platform (\<lambda>k. scenario_clock) staged_job staged_world) = Inr staged_info \<and>
   r2_delete failing_delete_platform 0 ''doc-1'' = Some (R2Error ''unavailable'') \<and>
   r2_delete failing_delete_platform 1 ''doc-1'' = Some (R2Error ''unavailable'') \<and>
   retry_limit failing_delete_platform = 1 \<and>
   fst (run failing_delete_platform (\<lambda>k. scenario_clock) staged_job staged_world) =
     Inl (R2Error ''unavailable'')"
  by (simp add: job_defs step_unfolds
    failing_delete_platform_def scenario_defs auth_defs world_defs worker_defs)

text \<open>
  Claim C3, amended. For a job that reaches the Cleanup step: a failed delete is
  reported on \<^verbatim>\<open>console.error\<close> and raised again. The job completes, with the blob gone,
  when some attempt within the retry limit deletes it; when every attempt fails, the job
  ends errored with the last delete's error, the blob stays in the bucket, and one line
  per failed attempt was reported.
\<close>

theorem cleanup_failure_decides_job_status:
  assumes "upload_steps P clk payload w = (Inr fileInfo, w3)"
  shows "((\<exists>k. k \<le> retry_limit P \<and> r2_delete P k (info_fileId fileInfo) = None) \<longrightarrow>
            fst (run P clk payload w) = Inr () \<and>
            DOCUMENT_STORAGE (snd (run P clk payload w)) (info_fileId fileInfo) = None) \<and>
         ((\<forall>k. k \<le> retry_limit P \<longrightarrow> r2_delete P k (info_fileId fileInfo) \<noteq> None) \<longrightarrow>
            (\<exists>e. r2_delete P (retry_limit P) (info_fileId fileInfo) = Some e \<and>
                 fst (run P clk payload w) = Inl e) \<and>
            DOCUMENT_STORAGE (snd (run P clk payload w)) = DOCUMENT_STORAGE w3 \<and>
            console_error (snd (run P clk payload w)) =
              console_error w3 @
              map (\<lambda>k. (delete_line fileInfo, r2_delete P k (info_fileId fileInfo)))
                [0..<Suc (retry_limit P)])"
proof -
  have run: "run P clk payload w = step_do (retry_limit P) (cleanup_and_delete_file P fileInfo) 0 w3"
    using assms by (simp add: run_def)
  show ?thesis
  proof (intro conjI impI)
    assume "\<exists>k. k \<le> retry_limit P \<and> r2_delete P k (info_fileId fileInfo) = None"
    then obtain k where k: "k \<le> retry_limit P" "r2_delete P k (info_fileId fileInfo) = None"
      by blast
    from cleanup_some_success [of 0 k "retry_limit P" P fileInfo w3] k
    obtain w' where "step_do (retry_limit P) (cleanup_and_delete_file P fileInfo) 0 w3 = (Inr (), w')"
      "DOCUMENT_STORAGE w' (info_fileId fileInfo) = None" by auto
    then show "fst (run P clk payload w) = Inr ()"
      and "DOCUMENT_STORAGE (snd (run P clk payload w)) (info_fileId fileInfo) = None"
      by (simp_all add: run)
  next
    assume a: "\<forall>k. k \<le> retry_limit P \<longrightarrow> r2_delete P k (info_fileId fileInfo) \<noteq> None"
    from cleanup_all_fail [of 0 "retry_limit P" P fileInfo w3] a
    obtain e w' where r: "step_do (retry_limit P) (cleanup_and_delete_file P fileInfo) 0 w3 = (Inl e, w')"
      "r2_delete P (retry_limit P) (info_fileId fileInfo) = Some e"
      "DOCUMENT_STORAGE w' = DOCUMENT_STORAGE w3"
      "console_error w' = console_error w3 @
         map (\<lambda>j. (delete_line fileInfo, r2_delete P j (info_fileId fileInfo))) [0..<Suc (retry_limit P)]"
      by auto
    from r show "\<exists>e. r2_delete P (retry_limit P) (info_fileId fileInfo) = Some e \<and>
                 fst (run P clk payload w) = Inl e"
      by (simp add: run)
    from r show "DOCUMENT_STORAGE (snd (run P clk payload w)) = DOCUMENT_STORAGE w3"
      by (simp add: run)
    from r show "console_error (snd (run P clk payload w)) =
              console_error w3 @
              map (\<lambda>k. (delete_line fileInfo, r2_delete P k (info_fileId fileInfo)))
                [0..<Suc (retry_limit P)]"
      by (simp add: run)
  qed
qed

theorem cleanup_failure_decides_job_status_witness:
  "fst (upload_steps scenario_platform (\<lambda>k. scenario_clock) staged_job staged_world) = Inr staged_info \<and>
   (0::nat) \<le> retry_limit scenario_platform \<and> r2_delete scenario_platform 0 (info_fileId staged_info) = None \<and>
   fst (run scenario_platform (\<lambda>k. scenario_clock) staged_job staged_world) = Inr () \<and>
   DOCUMENT_STORAGE (snd (run scenario_platform (\<lambda>k. scenario_clock) staged_job staged_world)) ''doc-1'' = None \<and>
   fst (upload_steps failing_delete_platform (\<lambda>k. scenario_clock) staged_job staged_world) = Inr staged_info \<and>
   r2_delete failing_delete_platform 0 (info_fileId staged_info) = Some (R2Error ''unavailable'') \<and>
   r2_delete failing_delete_platform 1 (info_fileId staged_info) = Some (R2Error ''unavailable'') \<and>
   retry_limit failing_delete_platform = 1 \<and>
   fst (run failing_delete_platform (\<lambda>k. scenario_clock) staged_job staged_world) = Inl (R2Error ''unavailable'') \<and>
   console_error (snd (run failing_delete_platform (\<lambda>k. scenario_clock) staged_job staged_world)) =
     [(delete_line staged_info, Some (R2Error ''unavailable'')),
      (delete_line staged_info, Some (R2Error ''unavailable''))]"
proof -
  let ?clk = "\<lambda>k::nat. scenario_clock"
  have reach: "fst (upload_steps scenario_platform ?clk staged_job staged_world) = Inr staged_info"
    by (simp add: job_defs step_unfolds failing_delete_platform_def scenario_defs auth_defs world_defs worker_defs)
  have reach': "fst (upload_steps failing_delete_platform ?clk staged_job staged_world) = Inr staged_info"
    by (simp add: job_defs step_unfolds failing_delete_platform_def scenario_defs auth_defs world_defs worker_defs)
  obtain w3 where 1: "upload_steps scenario_platform ?clk staged_job staged_world = (Inr staged_info, w3)"
    using reach by (cases "upload_steps scenario_platform ?clk staged_job staged_world") simp
  obtain w3' where 2: "upload_steps failing_delete_platform ?clk staged_job staged_world = (Inr staged_info, w3')"
    using reach' by (cases "upload_steps failing_delete_platform ?clk staged_job staged_world") simp
  have facts: "(0::nat) \<le> retry_limit scenario_platform"
    "r2_delete scenario_platform 0 (info_fileId staged_info) = None"
    "r2_delete failing_delete_platform k (info_fileId staged_info) = Some (R2Error ''unavailable'')"
    "retry_limit failing_delete_platform = 1" for k
    by (simp_all add: failing_delete_platform_def scenario_defs world_defs)
  have h: "\<exists>k. k \<le> retry_limit scenario_platform \<and>
               r2_delete scenario_platform k (info_fileId staged_info) = None"
    using facts(1,2) by blast
  have h': "\<forall>k. k \<le> retry_limit failing_delete_platform \<longrightarrow>
               r2_delete failing_delete_platform k (info_fileId staged_info) \<noteq> None"
    using facts(3) by simp
  have ok: "fst (run scenario_platform ?clk staged_job staged_world) = Inr ()"
    "DOCUMENT_STORAGE (snd (run scenario_platform ?clk staged_job staged_world)) (info_fileId staged_info) = None"
    using cleanup_failure_decides_job_status [OF 1] h by blast+
  have ko: "fst (run failing_delete_platform ?clk staged_job staged_world) = Inl (R2Error ''unavailable'')"
    using cleanup_failure_decides_job_status [OF 2] h' facts(3) [of "retry_limit failing_delete_platform"] by auto
  have lines: "console_error (snd (run failing_delete_platform ?clk staged_job staged_world)) =
     [(delete_line staged_info, Some (R2Error ''unavailable'')),
      (delete_line staged_info, Some (R2Error ''unavailable''))]"
    by (simp add: job_defs step_unfolds failing_delete_platform_def scenario_defs auth_defs world_defs worker_defs
        delete_line_def)
  show ?thesis
    using reach reach' facts ok ko lines by (simp add: staged_info_def)
qed

section \<open>Properties of the entry points\<close>

text \<open>
  Claim C4, as the specification states it, fails: with signup disabled the answer of
  \<^verbatim>\<open>POST /register\<close> has status 403, not 400.
\<close>

theorem post_register_disabled_is_403:
  "http_status (fst (post_register scenario_platform scenario_clock (Some ''true'')
      (Parsed (Some ''ABC123'')) empty_world)) = 403 \<and>
   (403::nat) \<noteq> 400"
  by (simp add: post_register_def)


lemma post_register_status:
  "http_status (fst (post_register P clk SIGNUP_DISABLED body w)) \<in> {200, 400, 403, 500} \<and>
   (http_status (fst (post_register P clk SIGNUP_DISABLED body w)) = 403) =
     (SIGNUP_DISABLED \<noteq> Some ''false'')"
  by (auto simp: post_register_def Let_def
      split: prod.splits sum.splits register_reply.splits register_body.splits)

text \<open>
  Claim C4, amended. \<^verbatim>\<open>POST /register\<close> answers with one of the statuses 200, 400,
  403 and 500, and with 403 exactly when signup is disabled. With signup disabled, the
  body is an \<open>error\<close>; with a missing (or empty) link code, status 400 and an \<open>error\<close> body;
  with a body that does not parse, or when the registration raises, status 500; when the
  account instance refuses the registration, status 400 with its \<open>error\<close>; and when it
  succeeds, status 200 with \<open>success\<close>, \<open>authId\<close> and a message.
\<close>

theorem post_register_responses:
  "http_status (fst (post_register P clk SIGNUP_DISABLED body w)) \<in> {200, 400, 403, 500} \<and>
   (http_status (fst (post_register P clk SIGNUP_DISABLED body w)) = 403) =
     (SIGNUP_DISABLED \<noteq> Some ''false'') \<and>
   (SIGNUP_DISABLED \<noteq> Some ''false'' \<longrightarrow>
      fst (post_register P clk SIGNUP_DISABLED body w) =
        \<lparr>http_status = 403, http_json = [(''error'', JString ''Signup is currently disabled'')]\<rparr>) \<and>
   (SIGNUP_DISABLED = Some ''false'' \<and> body = Parsed linkCode \<and> \<not> truthy linkCode \<longrightarrow>
      fst (post_register P clk SIGNUP_DISABLED body w) =
        \<lparr>http_status = 400, http_json = [(''error'', JString ''Link code is required'')]\<rparr>) \<and>
   (SIGNUP_DISABLED = Some ''false'' \<and> body = Unparseable \<longrightarrow>
      http_status (fst (post_register P clk SIGNUP_DISABLED body w)) = 500) \<and>
   (SIGNUP_DISABLED = Some ''false'' \<and> body = Parsed (Some code) \<and> code \<noteq> [] \<longrightarrow>
      (case fst (on_stub P clk (randomUUID P (Suc (uuids w)))
                  (register P (at_persisted clk) code (randomUUID P (uuids w)))
                  (w\<lparr>uuids := Suc (Suc (uuids w))\<rparr>)) of
         Inl e \<Rightarrow>
           fst (post_register P clk SIGNUP_DISABLED body w) =
             \<lparr>http_status = 500,
              http_json = [(''error'', JString ''Registration failed''), (''details'', JMessage e)]\<rparr>
       | Inr (AuthError msg) \<Rightarrow>
           fst (post_register P clk SIGNUP_DISABLED body w) =
             \<lparr>http_status = 400, http_json = [(''error'', JString msg)]\<rparr>
       | Inr (RegisterResult dev) \<Rightarrow>
           fst (post_register P clk SIGNUP_DISABLED body w) =
             \<lparr>http_status = 200,
              http_json = [(''success'', JBool True),
                           (''authId'', JString (randomUUID P (Suc (uuids w)))),
                           (''message'', JString
                              ''Device registered successfully. Use the authId for future API calls.'')]\<rparr>))"
  using post_register_status [of P clk SIGNUP_DISABLED body w]
  by (auto simp: post_register_def truthy_def render_def Let_def
      split: prod.splits sum.splits register_reply.splits option.splits)

theorem post_register_responses_witness:
  "fst (post_register scenario_platform scenario_clock (Some ''true'') (Parsed (Some ''ABC123'')) empty_world) =
        \<lparr>http_status = 403, http_json = [(''error'', JString ''Signup is currently disabled'')]\<rparr> \<and>
   fst (post_register scenario_platform scenario_clock (Some ''false'') (Parsed None) empty_world) =
        \<lparr>http_status = 400, http_json = [(''error'', JString ''Link code is required'')]\<rparr> \<and>
   http_status (fst (post_register scenario_platform scenario_clock (Some ''false'') Unparseable empty_world)) = 500 \<and>
   fst (post_register scenario_platform scenario_clock (Some ''false'') (Parsed (Some ''ABC123'')) empty_world) =
             \<lparr>http_status = 200,
              http_json = [(''success'', JBool True),
                           (''authId'', JString ''uuid-1''),
                           (''message'', JString
                              ''Device registered successfully. Use the authId for future API calls.'')]\<rparr> \<and>
   fst (post_register scenario_platform scenario_clock (Some ''false'') (Parsed (Some ''WRONG'')) empty_world) =
             \<lparr>http_status = 400, http_json = [(''error'', JString ''Failed to register (response code): 400'')]\<rparr> \<and>
   fst (post_register outage_platform scenario_clock (Some ''false'') (Parsed (Some ''ABC123'')) empty_world) =
             \<lparr>http_status = 500,
              http_json = [(''error'', JString ''Registration failed''), (''details'', JMessage Fetch_failed)]\<rparr>"
  using post_register_responses [where P = scenario_platform and clk = scenario_clock and SIGNUP_DISABLED = "Some ''true''"
         and body = "Parsed (Some ''ABC123'')" and w = empty_world]
    post_register_responses [where P = scenario_platform and clk = scenario_clock and SIGNUP_DISABLED = "Some ''false''"
         and body = "Parsed None" and w = empty_world and linkCode = None]
    post_register_responses [where P = scenario_platform and clk = scenario_clock and SIGNUP_DISABLED = "Some ''false''"
         and body = "Unparseable" and w = empty_world]
    post_register_responses [where P = scenario_platform and clk = scenario_clock and SIGNUP_DISABLED = "Some ''false''"
         and body = "Parsed (Some ''ABC123'')" and w = empty_world and code = "''ABC123''"]
  by (simp add: post_register_def outage_platform_def scenario_defs auth_defs world_defs worker_defs show_nat.simps
      digit_char_def Let_def)


text \<open>
  Claim C5 describes what the handler was meant to do; the code raises before it does any
  of it. On an email with one attachment and one recipient, the handler passes both
  guards, reads the undeclared \<^verbatim>\<open>toAddress\<close> and raises: nothing is staged, no job is
  submitted and no rejection reason is set.
\<close>

theorem email_handler_raises_reference_error:
  "email_handler scenario_platform scenario_clock scenario_mail staged_world =
     (Inl (ReferenceError ''toAddress''), staged_world)"
  by (simp add: email_handler_def scenario_mail_def)

text \<open>The two rejections of claim C5 do hold.\<close>

lemma email_handler_rejects:
  "attachments mail = None \<or> attachments mail = Some [] \<Longrightarrow>
     fst (email_handler P clk mail w) = Inr (Some ''Email must contain at least one attachment'')"
  "attachments mail = Some (a # as) \<Longrightarrow> recipients mail = None \<or> recipients mail = Some [] \<Longrightarrow>
     fst (email_handler P clk mail w) = Inr (Some ''Email must have a 'to' address'')"
  by (auto simp: email_handler_def)

lemma email_handler_never_stages:
  "DOCUMENT_STORAGE (snd (email_handler P clk mail w)) = DOCUMENT_STORAGE w \<and>
   MY_WORKFLOW (snd (email_handler P clk mail w)) = MY_WORKFLOW w"
  by (simp add: email_handler_def error_line_def)

end
